theory Spec2Isabelle
  imports Main
begin

section \<open>Effects: exceptions and the world outside the program\<close>

text \<open>
  A Python exception is a value carrying its message (\<open>str(e)\<close>). A library call that
  may raise takes the world and returns either the exception or its result, together with
  the world it leaves behind.
\<close>

datatype exn = Exn string

fun str_of_exn :: "exn \<Rightarrow> string" where
  "str_of_exn (Exn m) = m"

text \<open>
  The system clipboard is its text and whether another process currently holds it open.
  pyperclip raises while the clipboard is held by someone else; otherwise \<open>paste()\<close>
  returns the text and \<open>copy(t)\<close> replaces it. Everything else of the machine (the
  foreign application, its windows, pending input) lives in the extension part of the
  record, which the program never inspects.
\<close>

record world =
  clipboard :: string
  clip_locked :: bool

definition pyperclip_paste :: "'a world_scheme \<Rightarrow> (exn + string) \<times> 'a world_scheme" where
  "pyperclip_paste w =
     (if clip_locked w then (Inl (Exn ''PyperclipException''), w)
      else (Inr (clipboard w), w))"

definition pyperclip_copy :: "string \<Rightarrow> 'a world_scheme \<Rightarrow> (exn + unit) \<times> 'a world_scheme" where
  "pyperclip_copy t w =
     (if clip_locked w then (Inl (Exn ''PyperclipException''), w)
      else (Inr (), w\<lparr>clipboard := t\<rparr>))"

text \<open>
  The keyboard, clock and window libraries are parameters: each call is an arbitrary
  transformation of the world that may raise. Durations are in milliseconds. While the
  program sleeps the foreign application runs, so \<open>sleep\<close> changes the world too.
\<close>

type_synonym window = nat

record 'a platform =
  press_and_release :: "string \<Rightarrow> 'a world_scheme \<Rightarrow> (exn + unit) \<times> 'a world_scheme"
  press :: "string \<Rightarrow> 'a world_scheme \<Rightarrow> (exn + unit) \<times> 'a world_scheme"
  release :: "string \<Rightarrow> 'a world_scheme \<Rightarrow> (exn + unit) \<times> 'a world_scheme"
  sleep :: "nat \<Rightarrow> 'a world_scheme \<Rightarrow> 'a world_scheme"
  get_active_window :: "'a world_scheme \<Rightarrow> (exn + window option) \<times> 'a world_scheme"
  activate :: "window \<Rightarrow> 'a world_scheme \<Rightarrow> (exn + unit) \<times> 'a world_scheme"

text \<open>Statements in sequence: the first exception ends the sequence.\<close>

fun in_sequence ::
  "('w \<Rightarrow> (exn + unit) \<times> 'w) list \<Rightarrow> 'w \<Rightarrow> (exn + unit) \<times> 'w" where
  "in_sequence [] w = (Inr (), w)"
| "in_sequence (a # as) w =
     (case a w of
        (Inl e, w') \<Rightarrow> (Inl e, w')
      | (Inr _, w') \<Rightarrow> in_sequence as w')"

definition sleeping :: "'a platform \<Rightarrow> nat \<Rightarrow> 'a world_scheme \<Rightarrow> (exn + unit) \<times> 'a world_scheme" where
  "sleeping P ms w = (Inr (), sleep P ms w)"


section \<open>clipboard\_handler.py\<close>

text \<open>
  The module global \<open>_original_clipboard\<close> is threaded next to the world: \<open>None\<close> is
  Python's \<open>None\<close>.
\<close>

definition save_clipboard ::
  "'a world_scheme \<Rightarrow> string option \<times> string option \<times> 'a world_scheme" where
  \<comment> \<open>returns (return value, \<open>_original_clipboard\<close>, world)\<close>
  "save_clipboard w =
     (case pyperclip_paste w of
        (Inr c, w') \<Rightarrow> (Some c, Some c, w')
      | (Inl e, w') \<Rightarrow> (None, None, w'))"

definition restore_clipboard ::
  "string option \<times> 'a world_scheme \<Rightarrow> string option \<times> 'a world_scheme" where
  "restore_clipboard gw =
     (case gw of (g, w) \<Rightarrow>
        (case g of
           Some c \<Rightarrow> (None, snd (pyperclip_copy c w))
         | None \<Rightarrow> (None, w)))"

definition methods ::
  "'a platform \<Rightarrow> ('a world_scheme \<Rightarrow> (exn + unit) \<times> 'a world_scheme) list" where
  "methods P =
     [ press_and_release P ''ctrl+c'',
       in_sequence [press P ''ctrl'', sleeping P 100, press P ''c'', sleeping P 100,
                    release P ''c'', sleeping P 100, release P ''ctrl''],
       in_sequence [press_and_release P ''ctrl+c'', sleeping P 500] ]"

text \<open>
  The \<open>for\<close> loop over the methods. \<open>Inr (Some t)\<close> is the \<open>break\<close> with
  \<open>selected_text = t\<close>, \<open>Inr None\<close> the loop running to its end, \<open>Inl e\<close> an exception
  leaving the loop.
\<close>

fun copy_loop ::
  "('a world_scheme \<Rightarrow> (exn + unit) \<times> 'a world_scheme) list \<Rightarrow> 'a platform \<Rightarrow>
   string option \<Rightarrow> 'a world_scheme \<Rightarrow> (exn + string option) \<times> 'a world_scheme" where
  "copy_loop [] P original_content w = (Inr None, w)"
| "copy_loop (method # rest) P original_content w =
     (case method w of
        (Inl e, w1) \<Rightarrow> (Inl e, w1)
      | (Inr _, w1) \<Rightarrow>
          (case pyperclip_paste (sleep P 300 w1) of
             (Inl e, w2) \<Rightarrow> (Inl e, w2)
           | (Inr current_content, w2) \<Rightarrow>
               if current_content \<noteq> [] \<and> Some current_content \<noteq> original_content
               then (Inr (Some current_content), w2)
               else copy_loop rest P original_content w2))"

definition get_selected_text_via_copy ::
  "'a platform \<Rightarrow> string option \<times> 'a world_scheme \<Rightarrow>
   string option \<times> string option \<times> 'a world_scheme" where
  \<comment> \<open>returns (selected text, \<open>_original_clipboard\<close>, world)\<close>
  "get_selected_text_via_copy P gw =
     (case save_clipboard (snd gw) of (original_content, g1, w1) \<Rightarrow>
        (case copy_loop (methods P) P original_content w1 of (r, w2) \<Rightarrow>
           (let selected_text = (case r of Inl e \<Rightarrow> None | Inr t \<Rightarrow> t)
            in (case restore_clipboard (g1, w2) of (g3, w3) \<Rightarrow>
                  (selected_text, g3, w3)))))"



section \<open>Python text\<close>

text \<open>
  Text is a \<open>string\<close> of ASCII characters; on these the functions below are Python's
  \<open>str.isspace\<close>, \<open>strip\<close>, \<open>lower\<close>, \<open>in\<close>, \<open>startswith\<close>, \<open>split(sep, 1)\<close>,
  \<open>replace\<close> of one character and \<open>capitalize\<close>.
\<close>

abbreviation NL :: char where "NL \<equiv> CHR 0x0A"
abbreviation DQ :: char where "DQ \<equiv> CHR 0x22"

definition py_isspace :: "char \<Rightarrow> bool" where
  "py_isspace c =
     (c \<in> set [CHR 0x09, CHR 0x0A, CHR 0x0B, CHR 0x0C, CHR 0x0D,
                CHR 0x1C, CHR 0x1D, CHR 0x1E, CHR 0x1F, CHR 0x20])"

definition py_strip :: "string \<Rightarrow> string" where
  "py_strip s = rev (dropWhile py_isspace (rev (dropWhile py_isspace s)))"

definition py_lower_char :: "char \<Rightarrow> char" where
  "py_lower_char c =
     (let n = (of_char c :: nat) in if 65 \<le> n \<and> n \<le> 90 then char_of (n + 32) else c)"

definition py_upper_char :: "char \<Rightarrow> char" where
  "py_upper_char c =
     (let n = (of_char c :: nat) in if 97 \<le> n \<and> n \<le> 122 then char_of (n - 32) else c)"

definition py_lower :: "string \<Rightarrow> string" where
  "py_lower s = map py_lower_char s"

fun py_capitalize :: "string \<Rightarrow> string" where
  "py_capitalize [] = []"
| "py_capitalize (c # cs) = py_upper_char c # py_lower cs"

definition startswith :: "string \<Rightarrow> string \<Rightarrow> bool" where
  "startswith s p = (take (length p) s = p)"

fun py_in :: "string \<Rightarrow> string \<Rightarrow> bool" where
  \<comment> \<open>\<open>py_in sub s\<close> is Python's \<open>sub in s\<close>\<close>
  "py_in sub [] = (sub = [])"
| "py_in sub (c # cs) = (startswith (c # cs) sub \<or> py_in sub cs)"

definition split_once :: "char \<Rightarrow> string \<Rightarrow> string list" where
  \<comment> \<open>\<open>s.split(sep, 1)\<close> for a one-character separator\<close>
  "split_once sep s =
     (if sep \<in> set s
      then [takeWhile (\<lambda>c. c \<noteq> sep) s, tl (dropWhile (\<lambda>c. c \<noteq> sep) s)]
      else [s])"

definition replace_char :: "char \<Rightarrow> char \<Rightarrow> string \<Rightarrow> string" where
  "replace_char a b s = map (\<lambda>c. if c = a then b else c) s"


section \<open>The regular expressions of chat\_window.py\<close>

text \<open>
  The two patterns of \<open>_extract_enhanced_content\<close> use literal characters, \<open>.\<close> under
  \<open>re.DOTALL\<close>, \<open>\s\<close>, greedy and lazy repetition of one such atom, and one group. A
  pattern is the list of its items; the matcher is the backtracking one of Python's
  \<open>re\<close>: a lazy repetition first tries to go on with the rest of the pattern and takes
  one more character only when that fails, a greedy repetition takes as many characters
  as it can and gives them back one at a time.
\<close>

datatype atom = Lit char | AnyChar | Space

datatype item = One atom | Greedy atom | Lazy atom | GroupStart | GroupEnd

fun accepts :: "atom \<Rightarrow> char \<Rightarrow> bool" where
  "accepts (Lit a) c = (a = c)"
| "accepts AnyChar c = True"
| "accepts Space c = py_isspace c"

text \<open>
  \<open>rmatch p s n gs ge\<close> matches the pattern \<open>p\<close> at the start of \<open>s\<close>, where \<open>n\<close>
  characters of the match are already consumed and the group spans \<open>gs\<close> to \<open>ge\<close>; it
  returns the length of the match and the span of the group.
\<close>

fun rmatch :: "item list \<Rightarrow> string \<Rightarrow> nat \<Rightarrow> nat \<Rightarrow> nat \<Rightarrow> (nat \<times> nat \<times> nat) option" where
  "rmatch [] s n gs ge = Some (n, gs, ge)"
| "rmatch (GroupStart # p) s n gs ge = rmatch p s n n ge"
| "rmatch (GroupEnd # p) s n gs ge = rmatch p s n gs n"
| "rmatch (One a # p) [] n gs ge = None"
| "rmatch (One a # p) (c # cs) n gs ge =
     (if accepts a c then rmatch p cs (Suc n) gs ge else None)"
| "rmatch (Lazy a # p) [] n gs ge = rmatch p [] n gs ge"
| "rmatch (Lazy a # p) (c # cs) n gs ge =
     (case rmatch p (c # cs) n gs ge of
        Some r \<Rightarrow> Some r
      | None \<Rightarrow> if accepts a c then rmatch (Lazy a # p) cs (Suc n) gs ge else None)"
| "rmatch (Greedy a # p) [] n gs ge = rmatch p [] n gs ge"
| "rmatch (Greedy a # p) (c # cs) n gs ge =
     (if accepts a c
      then (case rmatch (Greedy a # p) cs (Suc n) gs ge of
              Some r \<Rightarrow> Some r
            | None \<Rightarrow> rmatch p (c # cs) n gs ge)
      else rmatch p (c # cs) n gs ge)"

text \<open>
  \<open>re.search\<close>: the match at the leftmost position that has one, as (text before the
  match, the match, group 1, text after the match).
\<close>

fun re_search :: "item list \<Rightarrow> string \<Rightarrow> (string \<times> string \<times> string \<times> string) option" where
  "re_search p [] =
     (case rmatch p [] 0 0 0 of
        Some (e, gs, ge) \<Rightarrow> Some ([], [], [], [])
      | None \<Rightarrow> None)"
| "re_search p (c # cs) =
     (case rmatch p (c # cs) 0 0 0 of
        Some (e, gs, ge) \<Rightarrow>
          Some ([], take e (c # cs), take (ge - gs) (drop gs (c # cs)), drop e (c # cs))
      | None \<Rightarrow>
          (case re_search p cs of
             None \<Rightarrow> None
           | Some (b, m, g, a) \<Rightarrow> Some (c # b, m, g, a)))"

lemma re_search_parts:
  "re_search p s = Some (b, m, g, a) \<Longrightarrow> s = b @ m @ a"
proof (induction s arbitrary: b)
  case Nil
  then show ?case by (simp split: option.splits)
next
  case (Cons c cs)
  show ?case
  proof (cases "rmatch p (c # cs) 0 0 0")
    case (Some r)
    obtain e gs ge where "r = (e, gs, ge)" by (cases r)
    with Some Cons.prems have "b = []" and "m = take e (c # cs)" and "a = drop e (c # cs)"
      by simp_all
    then show ?thesis by simp
  next
    case None
    with Cons.prems obtain b' where "re_search p cs = Some (b', m, g, a)" and "b = c # b'"
      by (auto split: option.splits)
    with Cons.IH show ?thesis by simp
  qed
qed

text \<open>
  \<open>re.sub(pattern, repl, text)\<close> for a replacement without group references: every
  match, left to right, is replaced, and the search goes on behind the match (one
  character further on behind an empty match).
\<close>

function re_sub :: "item list \<Rightarrow> string \<Rightarrow> string \<Rightarrow> string" where
  "re_sub p repl s =
     (case re_search p s of
        None \<Rightarrow> s
      | Some (b, m, g, a) \<Rightarrow>
          if m = [] then (case a of [] \<Rightarrow> b @ repl | c # cs \<Rightarrow> b @ repl @ c # re_sub p repl cs)
          else b @ repl @ re_sub p repl a)"
  by pat_completeness auto
termination
proof (relation "measure (\<lambda>(p, repl, s). length s)")
  show "wf (measure (\<lambda>(p, repl, s). length s))" by simp
next
  fix p :: "item list" and repl s :: string and x2 b y m ya g a c cs
  assume "re_search p s = Some x2" "(b, y) = x2" "(m, ya) = y" "(g, a) = ya" "m = []" "a = c # cs"
  then have "re_search p s = Some (b, m, g, c # cs)" by simp
  from re_search_parts [OF this]
  show "((p, repl, cs), (p, repl, s)) \<in> measure (\<lambda>(p, repl, s). length s)" by simp
next
  fix p :: "item list" and repl s :: string and x2 b y m ya g a
  assume "re_search p s = Some x2" "(b, y) = x2" "(m, ya) = y" "(g, a) = ya" "m \<noteq> []"
  then have "re_search p s = Some (b, m, g, a)" and "m \<noteq> []" by simp_all
  from re_search_parts [OF this(1)] this(2)
  show "((p, repl, a), (p, repl, s)) \<in> measure (\<lambda>(p, repl, s). length s)" by simp
qed

definition lits :: "string \<Rightarrow> item list" where
  "lits s = map (\<lambda>c. One (Lit c)) s"

definition json_pattern :: "item list" where
  \<comment> \<open>\<open>```json\s*({.*?"enhanced_content"\s*:.*?})\s*```\<close> with \<open>re.DOTALL\<close>\<close>
  "json_pattern =
     lits ''```json'' @ [Greedy Space, GroupStart, One (Lit (CHR ''{'')), Lazy AnyChar]
     @ lits (DQ # ''enhanced_content'' @ [DQ])
     @ [Greedy Space, One (Lit (CHR '':'')), Lazy AnyChar, One (Lit (CHR ''}'')), GroupEnd,
        Greedy Space]
     @ lits ''```''"

definition newlines_pattern :: "item list" where
  \<comment> \<open>\<open>\n{3,}\<close>\<close>
  "newlines_pattern = [One (Lit NL), One (Lit NL), One (Lit NL), Greedy (Lit NL)]"


section \<open>json.loads\<close>

text \<open>
  The decoder of Python's \<open>json\<close> module on ASCII text. A number keeps its literal; an
  object keeps its members in the order of the text, and a lookup takes the last member
  with the key, as the dictionary built from them does. A \<open>\u\<close> escape beyond ASCII
  becomes the UTF-8 bytes of its code point (surrogate pairs are not joined).
\<close>

datatype json =
  JNull | JBool bool | JNumber string | JString string
  | JArray "json list" | JObject "(string \<times> json) list"

abbreviation BSL :: char where "BSL \<equiv> CHR 0x5C"

definition json_ws :: "char \<Rightarrow> bool" where
  "json_ws c = (c \<in> set [CHR 0x20, CHR 0x09, CHR 0x0A, CHR 0x0D])"

definition skip_ws :: "string \<Rightarrow> string" where
  "skip_ws s = dropWhile json_ws s"

definition is_digit :: "char \<Rightarrow> bool" where
  "is_digit c = (c \<in> set ''0123456789'')"

definition hex_value :: "char \<Rightarrow> nat option" where
  "hex_value c =
     (let n = (of_char c :: nat) in
      if 48 \<le> n \<and> n \<le> 57 then Some (n - 48)
      else if 65 \<le> n \<and> n \<le> 70 then Some (n - 55)
      else if 97 \<le> n \<and> n \<le> 102 then Some (n - 87)
      else None)"

definition hex4 :: "char \<Rightarrow> char \<Rightarrow> char \<Rightarrow> char \<Rightarrow> nat option" where
  "hex4 a b c d =
     (case (hex_value a, hex_value b, hex_value c, hex_value d) of
        (Some x, Some y, Some z, Some u) \<Rightarrow> Some (((x * 16 + y) * 16 + z) * 16 + u)
      | _ \<Rightarrow> None)"

definition utf8 :: "nat \<Rightarrow> string" where
  "utf8 cp =
     (if cp < 128 then [char_of cp]
      else if cp < 2048 then [char_of (192 + cp div 64), char_of (128 + cp mod 64)]
      else [char_of (224 + cp div 4096), char_of (128 + cp div 64 mod 64),
            char_of (128 + cp mod 64)])"

definition unescape :: "char \<Rightarrow> char option" where
  "unescape e =
     (if e = DQ then Some DQ
      else if e = BSL then Some BSL
      else if e = CHR ''/'' then Some (CHR ''/'')
      else if e = CHR ''b'' then Some (CHR 0x08)
      else if e = CHR ''f'' then Some (CHR 0x0C)
      else if e = CHR ''n'' then Some (CHR 0x0A)
      else if e = CHR ''r'' then Some (CHR 0x0D)
      else if e = CHR ''t'' then Some (CHR 0x09)
      else None)"

text \<open>The text of a string after its opening quote, and what follows the closing quote.\<close>

fun json_string :: "string \<Rightarrow> (string \<times> string) option" where
  "json_string [] = None"
| "json_string (c # cs) =
     (if c = DQ then Some ([], cs)
      else if c = BSL then
        (case cs of
           [] \<Rightarrow> None
         | e # rest \<Rightarrow>
             if e = CHR ''u'' then
               (case rest of
                  h1 # h2 # h3 # h4 # rest' \<Rightarrow>
                    (case hex4 h1 h2 h3 h4 of
                       None \<Rightarrow> None
                     | Some cp \<Rightarrow>
                         (case json_string rest' of
                            None \<Rightarrow> None
                          | Some (t, r) \<Rightarrow> Some (utf8 cp @ t, r)))
                | _ \<Rightarrow> None)
             else
               (case unescape e of
                  None \<Rightarrow> None
                | Some ch \<Rightarrow>
                    (case json_string rest of
                       None \<Rightarrow> None
                     | Some (t, r) \<Rightarrow> Some (ch # t, r))))
      else if (of_char c :: nat) < 32 then None
      else (case json_string cs of
              None \<Rightarrow> None
            | Some (t, r) \<Rightarrow> Some (c # t, r)))"

text \<open>
  A number: \<open>-?(0|[1-9]\d*)(\.\d+)?([eE][-+]?\d+)?\<close>, the longest such prefix.
\<close>

definition json_number :: "string \<Rightarrow> (string \<times> string) option" where
  "json_number s =
     (let sign = (if s \<noteq> [] \<and> hd s = CHR ''-'' then ''-'' else []);
          r0 = drop (length sign) s;
          ip = (if r0 \<noteq> [] \<and> hd r0 = CHR ''0'' then ''0'' else takeWhile is_digit r0);
          r1 = drop (length ip) r0;
          fd = (if r1 \<noteq> [] \<and> hd r1 = CHR ''.'' then takeWhile is_digit (tl r1) else []);
          frac = (if fd = [] then [] else CHR ''.'' # fd);
          r2 = drop (length frac) r1;
          es = (if r2 \<noteq> [] \<and> hd r2 \<in> set ''eE'' then
                  (if tl r2 \<noteq> [] \<and> hd (tl r2) \<in> set ''+-'' then [hd r2, hd (tl r2)] else [hd r2])
                else []);
          ed = (if es = [] then [] else takeWhile is_digit (drop (length es) r2));
          ex = (if ed = [] then [] else es @ ed);
          r3 = drop (length ex) r2
      in if ip = [] then None else Some (sign @ ip @ frac @ ex, r3))"

fun json_value :: "nat \<Rightarrow> string \<Rightarrow> (json \<times> string) option"
  and json_elements :: "nat \<Rightarrow> string \<Rightarrow> (json list \<times> string) option"
  and json_members :: "nat \<Rightarrow> string \<Rightarrow> ((string \<times> json) list \<times> string) option" where
  "json_value 0 s = None"
| "json_value (Suc n) s =
     (case s of
        [] \<Rightarrow> None
      | c # cs \<Rightarrow>
          if c = DQ then
            (case json_string cs of None \<Rightarrow> None | Some (t, r) \<Rightarrow> Some (JString t, r))
          else if c = CHR ''{'' then
            (if startswith (skip_ws cs) ''}'' then Some (JObject [], tl (skip_ws cs))
             else (case json_members n (skip_ws cs) of
                     None \<Rightarrow> None
                   | Some (ms, r) \<Rightarrow> Some (JObject ms, r)))
          else if c = CHR ''['' then
            (if startswith (skip_ws cs) '']'' then Some (JArray [], tl (skip_ws cs))
             else (case json_elements n (skip_ws cs) of
                     None \<Rightarrow> None
                   | Some (vs, r) \<Rightarrow> Some (JArray vs, r)))
          else if startswith s ''null'' then Some (JNull, drop 4 s)
          else if startswith s ''true'' then Some (JBool True, drop 4 s)
          else if startswith s ''false'' then Some (JBool False, drop 5 s)
          else if startswith s ''NaN'' then Some (JNumber ''NaN'', drop 3 s)
          else if startswith s ''Infinity'' then Some (JNumber ''Infinity'', drop 8 s)
          else if startswith s ''-Infinity'' then Some (JNumber ''-Infinity'', drop 9 s)
          else (case json_number s of
                  None \<Rightarrow> None
                | Some (t, r) \<Rightarrow> Some (JNumber t, r)))"
| "json_elements 0 s = None"
| "json_elements (Suc n) s =
     (case json_value n s of
        None \<Rightarrow> None
      | Some (v, r) \<Rightarrow>
          if startswith (skip_ws r) '']'' then Some ([v], tl (skip_ws r))
          else if startswith (skip_ws r) '','' then
            (case json_elements n (skip_ws (tl (skip_ws r))) of
               None \<Rightarrow> None
             | Some (vs, r') \<Rightarrow> Some (v # vs, r'))
          else None)"
| "json_members 0 s = None"
| "json_members (Suc n) s =
     (if startswith s [DQ] then
        (case json_string (tl s) of
           None \<Rightarrow> None
         | Some (k, r) \<Rightarrow>
             if startswith (skip_ws r) '':'' then
               (case json_value n (skip_ws (tl (skip_ws r))) of
                  None \<Rightarrow> None
                | Some (v, r') \<Rightarrow>
                    if startswith (skip_ws r') ''}'' then Some ([(k, v)], tl (skip_ws r'))
                    else if startswith (skip_ws r') '','' then
                      (case json_members n (skip_ws (tl (skip_ws r'))) of
                         None \<Rightarrow> None
                       | Some (ms, r'') \<Rightarrow> Some ((k, v) # ms, r''))
                    else None)
             else None)
      else None)"

definition json_loads :: "string \<Rightarrow> exn + json" where
  "json_loads s =
     (case json_value (Suc (length s)) (skip_ws s) of
        None \<Rightarrow> Inl (Exn ''JSONDecodeError'')
      | Some (v, r) \<Rightarrow> if skip_ws r = [] then Inr v else Inl (Exn ''JSONDecodeError''))"

text \<open>\<open>key in data\<close>, \<open>data[key]\<close> and \<open>len(v)\<close> on a decoded value.\<close>

fun json_contains :: "string \<Rightarrow> json \<Rightarrow> exn + bool" where
  "json_contains k (JObject ms) = Inr (k \<in> set (map fst ms))"
| "json_contains k (JArray vs) = Inr (JString k \<in> set vs)"
| "json_contains k (JString t) = Inr (py_in k t)"
| "json_contains k v = Inl (Exn ''TypeError'')"

fun json_getitem :: "json \<Rightarrow> string \<Rightarrow> exn + json" where
  "json_getitem (JObject ms) k =
     (case map_of (rev ms) k of None \<Rightarrow> Inl (Exn ''KeyError'') | Some v \<Rightarrow> Inr v)"
| "json_getitem v k = Inl (Exn ''TypeError'')"

fun json_len :: "json \<Rightarrow> exn + nat" where
  "json_len (JString t) = Inr (length t)"
| "json_len (JArray vs) = Inr (length vs)"
| "json_len (JObject ms) = Inr (length (remdups (map fst ms)))"
| "json_len v = Inl (Exn ''TypeError'')"


section \<open>chat\_window.py: the reply parser\<close>

definition extract_enhanced_content :: "string \<Rightarrow> string \<times> json option" where
  "extract_enhanced_content text =
     (case re_search json_pattern text of
        None \<Rightarrow> (text, None)
      | Some (b, m, json_str, a) \<Rightarrow>
          (case json_loads json_str of
             Inl e \<Rightarrow> (text, None)
           | Inr data \<Rightarrow>
               (case json_contains ''enhanced_content'' data of
                  Inl e \<Rightarrow> (text, None)
                | Inr False \<Rightarrow> (text, None)
                | Inr True \<Rightarrow>
                    (case json_getitem data ''enhanced_content'' of
                       Inl e \<Rightarrow> (text, None)
                     | Inr enhanced_content \<Rightarrow>
                         (case json_len enhanced_content of
                            Inl e \<Rightarrow> (text, None)
                          | Inr n \<Rightarrow>
                              (let cleaned_text = py_strip (re_sub json_pattern [] text)
                               in (re_sub newlines_pattern [NL, NL] cleaned_text,
                                   Some enhanced_content)))))))"


section \<open>llm\_service.py\<close>

text \<open>
  The LangChain chain is a parameter: given the conversation memory and the input it
  returns the reply or raises. The memory is the list of (input, output) pairs saved so
  far.
\<close>

record llm =
  memory :: "(string \<times> string) list"

definition error_reply :: "exn \<Rightarrow> string" where
  \<comment> \<open>the \<open>except\<close> branch of \<open>invoke_chain\<close>\<close>
  "error_reply e =
     (let error_str = py_lower (str_of_exn e) in
      if py_in ''api key'' error_str \<or> py_in ''authentication'' error_str
         \<or> py_in ''unauthorized'' error_str \<or> py_in ''auth'' error_str
      then ''API_KEY_ERROR: Your API key appears to be invalid or has expired. Please check your API key in the settings.''
      else if py_in ''timeout'' error_str \<or> py_in ''connection'' error_str
              \<or> py_in ''network'' error_str
      then ''CONNECTION_ERROR: Unable to connect to the LLM service. Please check your internet connection.''
      else if py_in ''no response'' error_str
      then ''NO_RESPONSE_ERROR: No response received from the LLM service. The service might be experiencing high load.''
      else ''ERROR: '' @ str_of_exn e @ [NL, NL] @ ''Please try again in a moment.'')"

text \<open>
  \<open>invoke_chain\<close>: a blank reply is raised as an exception of its own and handled by
  the same \<open>except\<close> branch as an exception of the chain. Saving to the memory is
  taken not to raise.
\<close>

definition invoke_chain ::
  "((string \<times> string) list \<Rightarrow> string \<Rightarrow> exn + string) \<Rightarrow> string \<Rightarrow> llm \<Rightarrow> string \<times> llm" where
  "invoke_chain chain user_input L =
     (case (case chain (memory L) user_input of
              Inl e \<Rightarrow> Inl e
            | Inr ai_response \<Rightarrow>
                if ai_response = [] \<or> py_strip ai_response = []
                then Inl (Exn ''No response received from LLM service'')
                else Inr ai_response) of
        Inr ai_response \<Rightarrow>
          (ai_response, L\<lparr>memory := memory L @ [(user_input, ai_response)]\<rparr>)
      | Inl e \<Rightarrow> (error_reply e, L))"


section \<open>chat\_window.py: the window\<close>

text \<open>
  The fields of \<open>ChatWindow\<close> the handlers read and write, and the state of its
  widgets. The chat display is the list of the messages appended to it, each with its
  role tag and its text as shown (prefix and message). Threads started and timers
  scheduled by the handlers are kept in the order of their start. A suggestion is text.
\<close>

datatype widget_state = Normal | Disabled

datatype thread_target = Get_initial_response | Get_ai_response

record chat_window =
  initial_text :: string
  text_stack :: "string list"
  enhanced_content :: "string option"
  source_window :: "window option"
  user_input :: string
  user_input_state :: widget_state
  send_button_state :: widget_state
  chat_display :: "(string \<times> string) list"
  paste_frame_shown :: bool
  paste_preview :: string
  paste_button_text :: string
  paste_button_state :: widget_state
  paste_button_flash_timer :: "string option"
  undo_button_state :: widget_state
  threads :: "(thread_target \<times> string) list"
  clipboard_timers :: "(string \<times> string) list"

definition init_window :: "string \<Rightarrow> window option \<Rightarrow> chat_window" where
  \<comment> \<open>\<open>__init__\<close>\<close>
  "init_window selected src =
     \<lparr> initial_text = selected, text_stack = [selected], enhanced_content = Some selected,
       source_window = src, user_input = [], user_input_state = Normal,
       send_button_state = Normal, chat_display = [], paste_frame_shown = False,
       paste_preview = [], paste_button_text = ''Paste'', paste_button_state = Normal,
       paste_button_flash_timer = None, undo_button_state = Disabled, threads = [],
       clipboard_timers = [] \<rparr>"

definition role_prefix :: "string \<Rightarrow> string" where
  "role_prefix role =
     (if role = ''user'' then ''You: ''
      else if role = ''assistant'' then ''AI: ''
      else if role = ''error'' then ''Error: ''
      else if role = ''status'' then []
      else if role = ''system'' then ''System: ''
      else py_capitalize role @ '': '')"

definition append_to_chat :: "string \<Rightarrow> string \<Rightarrow> chat_window \<Rightarrow> chat_window" where
  "append_to_chat message role s =
     s\<lparr>chat_display := chat_display s @ [(role, role_prefix role @ message)]\<rparr>"

text \<open>
  \<open>_remove_last_message\<close> deletes the last line of the display: the last message when it
  is one line, the last line of it otherwise.
\<close>

definition remove_last_message :: "chat_window \<Rightarrow> chat_window" where
  "remove_last_message s =
     s\<lparr>chat_display :=
        (case rev (chat_display s) of
           [] \<Rightarrow> []
         | (role, t) # earlier \<Rightarrow>
             if NL \<in> set t
             then rev earlier @ [(role, rev (tl (dropWhile (\<lambda>c. c \<noteq> NL) (rev t))))]
             else rev earlier)\<rparr>"

definition set_input_state :: "widget_state \<Rightarrow> chat_window \<Rightarrow> chat_window" where
  "set_input_state st s = s\<lparr>user_input_state := st, send_button_state := st\<rparr>"

fun chat_text :: "(string \<times> string) list \<Rightarrow> string" where
  \<comment> \<open>\<open>chat_display.get("1.0", "end")\<close>: the messages, a blank line between them\<close>
  "chat_text [] = []"
| "chat_text [(role, t)] = t"
| "chat_text ((role, t) # rest) = t @ [NL, NL] @ chat_text rest"

text \<open>
  \<open>_send_message_event\<close>. There is no test of a pipeline state in it: the handler
  returns early only on empty input. \<open>user_input.delete(0, 'end')\<close> empties the entry
  when it is enabled; Tk ignores it on a disabled entry.
\<close>

definition send_message_event :: "chat_window \<Rightarrow> chat_window" where
  "send_message_event s =
     (let user_text = py_strip (user_input s) in
      if user_text = [] then s
      else
        (let s1 = (if user_input_state s = Normal then s\<lparr>user_input := []\<rparr> else s);
             s2 = append_to_chat ''Thinking...'' ''status'' (append_to_chat user_text ''user'' s1);
             s3 = set_input_state Disabled s2;
             s4 = s3\<lparr>paste_frame_shown := False, enhanced_content := None\<rparr>
         in if \<not> py_in ''AI:'' (chat_text (chat_display s4))
            then s4\<lparr>threads := threads s4 @ [(Get_initial_response, user_text)]\<rparr>
            else s4\<lparr>threads := threads s4 @ [(Get_ai_response, user_text)]\<rparr>))"

definition warning_sign :: string where
  \<comment> \<open>U+26A0 U+FE0F in UTF-8\<close>
  "warning_sign = [CHR 0xE2, CHR 0x9A, CHR 0xA0, CHR 0xEF, CHR 0xB8, CHR 0x8F]"

definition preview_of :: "string \<Rightarrow> string" where
  \<comment> \<open>the label text \<open>_update_paste_preview\<close> sets for the content\<close>
  "preview_of content =
     ''Paste: '' @ take 60 (replace_char NL (CHR '' '') (py_strip content))
     @ (if length content > 60 then ''...'' else [])"

text \<open>
  \<open>_update_gui_from_thread\<close>; its parameter \<open>enhanced_content\<close> is \<open>new_content\<close> here,
  the field \<open>self.enhanced_content\<close> keeps its name.
\<close>

definition update_gui_from_thread ::
  "string \<Rightarrow> string \<Rightarrow> string option \<Rightarrow> chat_window \<Rightarrow> chat_window" where
  "update_gui_from_thread message role new_content s =
     (let s1 = remove_last_message s in
      if role = ''assistant'' \<and>
         (startswith message ''API_KEY_ERROR:'' \<or> startswith message ''CONNECTION_ERROR:''
          \<or> startswith message ''NO_RESPONSE_ERROR:'')
      then
        (let error_parts = split_once (CHR '':'') message;
             error_type = replace_char (CHR ''_'') (CHR '' '') (hd error_parts);
             error_message =
               (if length error_parts > 1 then py_strip (error_parts ! 1) else ''Unknown error'')
         in set_input_state Normal
              (append_to_chat error_message ''error''
                 (append_to_chat (warning_sign @ '' '' @ error_type) ''error_title'' s1)))
      else
        (let s2 = append_to_chat message role s1;
             s3 = (case new_content of
                     None \<Rightarrow> s2
                   | Some content \<Rightarrow>
                       if content = [] then s2
                       else
                         (let s' = (if Some content \<noteq> enhanced_content s2
                                    then s2\<lparr>text_stack := text_stack s2 @ [content],
                                            undo_button_state := Normal\<rparr>
                                    else s2)
                          in s'\<lparr>enhanced_content := Some content, paste_frame_shown := True,
                                paste_preview := preview_of content\<rparr>))
         in if role \<noteq> ''error'' then set_input_state Normal s3 else s3))"

definition flash_paste_button :: "string \<Rightarrow> chat_window \<Rightarrow> chat_window" where
  \<comment> \<open>\<open>_flash_paste_button_success\<close> and \<open>_flash_paste_button_ready\<close>: the button shows
      the message, disabled, and a timer is set to put its text back\<close>
  "flash_paste_button message s =
     s\<lparr>paste_button_flash_timer := Some (paste_button_text s),
       paste_button_text := message, paste_button_state := Disabled\<rparr>"

definition revert_button :: "chat_window \<Rightarrow> chat_window" where
  "revert_button s =
     (case paste_button_flash_timer s of
        None \<Rightarrow> s
      | Some original_text \<Rightarrow>
          s\<lparr>paste_button_text := original_text, paste_button_state := Normal,
            paste_button_flash_timer := None\<rparr>)"

text \<open>
  The keystrokes of \<open>_apply_text_to_source_window\<close> between reading the active window
  and the success flash.
\<close>

definition paste_steps ::
  "'a platform \<Rightarrow> window \<Rightarrow> window option \<Rightarrow> nat \<Rightarrow>
   ('a world_scheme \<Rightarrow> (exn + unit) \<times> 'a world_scheme) list" where
  "paste_steps P src current_window content_length =
     [activate P src, sleeping P 500, press_and_release P ''ctrl+v'', sleeping P 300,
      press P ''shift'']
     @ concat (replicate (min content_length 1000) [press_and_release P ''left'', sleeping P 1])
     @ [release P ''shift'', sleeping P 500]
     @ (case current_window of None \<Rightarrow> [] | Some cw \<Rightarrow> [activate P cw])"

definition apply_text_to_source_window ::
  "'a platform \<Rightarrow> string \<Rightarrow> string \<Rightarrow> chat_window \<times> 'a world_scheme \<Rightarrow>
   bool \<times> chat_window \<times> 'a world_scheme" where
  "apply_text_to_source_window P text_content action_name sw =
     (case sw of (s, w) \<Rightarrow>
        if text_content = [] then (False, s, w)
        else
          (case pyperclip_paste w of
             (Inl e, w1) \<Rightarrow> (False, s, w1)
           | (Inr original_content, w1) \<Rightarrow>
               (case pyperclip_copy text_content w1 of
                  (Inl e, w2) \<Rightarrow> (False, s, w2)
                | (Inr _, w2) \<Rightarrow>
                    (case source_window s of
                       None \<Rightarrow> (False, s, w2)
                     | Some src \<Rightarrow>
                         (case get_active_window P w2 of
                            (Inl e, w3) \<Rightarrow> (False, s, w3)
                          | (Inr current_window, w3) \<Rightarrow>
                              (case in_sequence
                                      (paste_steps P src current_window (length text_content)) w3 of
                                 (Inl e, w4) \<Rightarrow> (False, s, w4)
                               | (Inr _, w4) \<Rightarrow>
                                   (True,
                                    (flash_paste_button
                                       (''Content '' @ action_name @ '' Successfully!'') s)
                                    \<lparr>clipboard_timers :=
                                       clipboard_timers s @ [(text_content, original_content)]\<rparr>,
                                    w4)))))))"

definition restore_clipboard_timer ::
  "string \<times> string \<Rightarrow> 'a world_scheme \<Rightarrow> 'a world_scheme" where
  \<comment> \<open>the closure \<open>restore_clipboard\<close> run by \<open>threading.Timer(10.0, ...)\<close>\<close>
  "restore_clipboard_timer closure w =
     (case closure of (text_content, original_content) \<Rightarrow>
        (case pyperclip_paste w of
           (Inl e, w1) \<Rightarrow> w1
         | (Inr current, w1) \<Rightarrow>
             if current = text_content then snd (pyperclip_copy original_content w1) else w1))"

definition undo_action ::
  "'a platform \<Rightarrow> chat_window \<times> 'a world_scheme \<Rightarrow> chat_window \<times> 'a world_scheme" where
  "undo_action P sw =
     (case sw of (s, w) \<Rightarrow>
        if length (text_stack s) > 1 then
          (let stack = butlast (text_stack s);
               previous = last stack;
               s1 = s\<lparr>text_stack := stack, enhanced_content := Some previous,
                      paste_preview := preview_of previous\<rparr>;
               s2 = (if length stack = 1 then s1\<lparr>undo_button_state := Disabled\<rparr> else s1)
           in snd (apply_text_to_source_window P previous ''Undone'' (s2, w)))
        else (s, w))"

definition paste_enhanced_content ::
  "'a platform \<Rightarrow> chat_window \<times> 'a world_scheme \<Rightarrow> chat_window \<times> 'a world_scheme" where
  "paste_enhanced_content P sw =
     (case sw of (s, w) \<Rightarrow>
        (case enhanced_content s of
           None \<Rightarrow> (flash_paste_button ''No content to paste!'' s, w)
         | Some content \<Rightarrow>
             if content = [] then (flash_paste_button ''No content to paste!'' s, w)
             else
               (case apply_text_to_source_window P content ''Pasted'' (s, w) of
                  (paste_successful, s1, w1) \<Rightarrow>
                    if paste_successful then
                      (case text_stack s1 of
                         [] \<Rightarrow> (s1, w1)
                       | _ # _ \<Rightarrow>
                           (let s2 = (if last (text_stack s1) \<noteq> content
                                      then s1\<lparr>text_stack := text_stack s1 @ [content]\<rparr>
                                      else s1);
                                s3 = (if length (text_stack s2) > 1
                                      then s2\<lparr>undo_button_state := Normal\<rparr> else s2)
                            in (s3\<lparr>paste_preview := preview_of content\<rparr>, w1)))
                    else (s1, w1))))"

text \<open>
  The events of a session. A disabled entry takes no edit and a disabled or hidden button
  no click; the Return binding of the entry runs the handler in any state. A result
  arrives from the oldest running thread, which then ends.
\<close>

datatype event =
  Edit_input string | Press_return | Click_send | Click_paste | Click_undo
  | Result_ready string string "string option"
  | Flash_timer_fires | Clipboard_timer_fires

fun step ::
  "'a platform \<Rightarrow> event \<Rightarrow> chat_window \<times> 'a world_scheme \<Rightarrow> chat_window \<times> 'a world_scheme" where
  "step P (Edit_input t) (s, w) =
     (if user_input_state s = Normal then (s\<lparr>user_input := t\<rparr>, w) else (s, w))"
| "step P Press_return (s, w) = (send_message_event s, w)"
| "step P Click_send (s, w) =
     (if send_button_state s = Normal then (send_message_event s, w) else (s, w))"
| "step P Click_paste (s, w) =
     (if paste_frame_shown s \<and> paste_button_state s = Normal
      then paste_enhanced_content P (s, w) else (s, w))"
| "step P Click_undo (s, w) =
     (if paste_frame_shown s \<and> undo_button_state s = Normal
      then undo_action P (s, w) else (s, w))"
| "step P (Result_ready message role new_content) (s, w) =
     (case threads s of
        [] \<Rightarrow> (s, w)
      | t # ts \<Rightarrow> (update_gui_from_thread message role new_content (s\<lparr>threads := ts\<rparr>), w))"
| "step P Flash_timer_fires (s, w) = (revert_button s, w)"
| "step P Clipboard_timer_fires (s, w) =
     (case clipboard_timers s of
        [] \<Rightarrow> (s, w)
      | c # cs \<Rightarrow> (s\<lparr>clipboard_timers := cs\<rparr>, restore_clipboard_timer c w))"

fun run ::
  "'a platform \<Rightarrow> event list \<Rightarrow> chat_window \<times> 'a world_scheme \<Rightarrow> chat_window \<times> 'a world_scheme" where
  "run P [] sw = sw"
| "run P (ev # evs) sw = run P evs (step P ev sw)"


section \<open>A desktop to run the program on\<close>

text \<open>
  A concrete machine for running the definitions: the world also records the keys and
  window activations it received. Copying puts the selection, if there is one, on the
  clipboard; the key \<open>broken\<close> raises; window 0 no longer exists; window 1 is the
  active one.
\<close>

record logged_world = world +
  key_log :: "string list"

definition desktop :: "string option \<Rightarrow> string \<Rightarrow> unit logged_world_ext platform" where
  "desktop selection broken =
     \<lparr> press_and_release = (\<lambda>k w.
         if k = broken then (Inl (Exn ''key failure''), w)
         else (Inr (),
               (if k = ''ctrl+c''
                then (case selection of None \<Rightarrow> w | Some t \<Rightarrow> w\<lparr>clipboard := t\<rparr>)
                else w)\<lparr>key_log := key_log w @ [k]\<rparr>)),
       press = (\<lambda>k w.
         if k = broken then (Inl (Exn ''key failure''), w)
         else (Inr (), w\<lparr>key_log := key_log w @ [''press '' @ k]\<rparr>)),
       release = (\<lambda>k w.
         if k = broken then (Inl (Exn ''key failure''), w)
         else (Inr (), w\<lparr>key_log := key_log w @ [''release '' @ k]\<rparr>)),
       sleep = (\<lambda>ms w. w),
       get_active_window = (\<lambda>w. (Inr (Some 1), w)),
       activate = (\<lambda>win w.
         if win = 0 then (Inl (Exn ''window is gone''), w)
         else (Inr (), w\<lparr>key_log := key_log w @ [''activate'']\<rparr>)) \<rparr>"

definition desk :: "string \<Rightarrow> logged_world" where
  "desk content = \<lparr>clipboard = content, clip_locked = False, key_log = []\<rparr>"

text \<open>
  The same desktop with a contended clipboard: \<open>busy_desk\<close> starts with the clipboard held
  open by another process, and on \<open>held_desktop\<close> every key chord ends with the clipboard
  released (\<open>held = False\<close>) or held open (\<open>held = True\<close>) by the foreign application.
\<close>

definition busy_desk :: "string \<Rightarrow> logged_world" where
  "busy_desk content = \<lparr>clipboard = content, clip_locked = True, key_log = []\<rparr>"

definition held_desktop :: "string option \<Rightarrow> bool \<Rightarrow> unit logged_world_ext platform" where
  "held_desktop selection held =
     (desktop selection [])
     \<lparr> press_and_release := (\<lambda>k w.
         case press_and_release (desktop selection []) k w of
           (r, w') \<Rightarrow> (r, w'\<lparr>clip_locked := held\<rparr>)) \<rparr>"


text \<open>A window after a paste on the desktop, and a window holding two versions.\<close>

definition pasted_window :: chat_window where
  "pasted_window = fst (snd (apply_text_to_source_window (desktop None []) ''new'' ''Pasted''
                               (init_window ''hello'' (Some 5), desk ''old'')))"

definition pasted_world :: logged_world where
  "pasted_world = snd (snd (apply_text_to_source_window (desktop None []) ''new'' ''Pasted''
                              (init_window ''hello'' (Some 5), desk ''old'')))"


definition example_reply :: string where
  \<comment> \<open>the reply of the specification's parser example: \<open>Here:\<close>, a fenced \<open>json\<close> block
      holding \<open>{"enhanced_content": "X"}\<close>, and \<open>Done.\<close>, one per line\<close>
  "example_reply =
     ''Here:'' @ [NL] @ ''```json'' @ [NL]
     @ ''{'' @ [DQ] @ ''enhanced_content'' @ [DQ] @ '': '' @ [DQ] @ ''X'' @ [DQ] @ ''}'' @ [NL]
     @ ''```'' @ [NL] @ ''Done.''"


definition failing_chain :: "string \<Rightarrow> (string \<times> string) list \<Rightarrow> string \<Rightarrow> exn + string" where
  \<comment> \<open>a provider whose every call raises with the given message\<close>
  "failing_chain msg mem prompt = Inl (Exn msg)"


section \<open>The specification's error categories\<close>

text \<open>
  The categories of provider failures named by the specification, chosen by the key
  terms of \<open>invoke_chain\<close> in the lower-cased error text, with the tag each reply starts
  with, the title shown for it and its fixed message.
\<close>

datatype category =
  ProviderAuthError | ProviderConnectionError | ProviderEmptyResponse | ProviderOtherError

definition classify :: "string \<Rightarrow> category" where
  "classify error_text =
     (let t = py_lower error_text in
      if py_in ''api key'' t \<or> py_in ''authentication'' t \<or> py_in ''unauthorized'' t
         \<or> py_in ''auth'' t then ProviderAuthError
      else if py_in ''timeout'' t \<or> py_in ''connection'' t \<or> py_in ''network'' t
      then ProviderConnectionError
      else if py_in ''no response'' t then ProviderEmptyResponse
      else ProviderOtherError)"

fun category_title :: "category \<Rightarrow> string" where
  "category_title ProviderAuthError = ''API KEY ERROR''"
| "category_title ProviderConnectionError = ''CONNECTION ERROR''"
| "category_title ProviderEmptyResponse = ''NO RESPONSE ERROR''"
| "category_title ProviderOtherError = ''ERROR''"

fun category_message :: "category \<Rightarrow> string" where
  "category_message ProviderAuthError =
     ''Your API key appears to be invalid or has expired. Please check your API key in the settings.''"
| "category_message ProviderConnectionError =
     ''Unable to connect to the LLM service. Please check your internet connection.''"
| "category_message ProviderEmptyResponse =
     ''No response received from the LLM service. The service might be experiencing high load.''"
| "category_message ProviderOtherError = ''Please try again in a moment.''"


definition category_reply :: "category \<Rightarrow> string" where
  \<comment> \<open>tag, colon and message: the reply \<open>invoke_chain\<close> returns for a matched category\<close>
  "category_reply c =
     replace_char (CHR '' '') (CHR ''_'') (category_title c) @ '': '' @ category_message c"


section \<open>The single-flight invariant\<close>

text \<open>
  What holds of the window in every state of a session: at most one thread runs; while
  one runs the entry and the send button are disabled; a disabled entry is empty.
\<close>

definition single_flight :: "chat_window \<Rightarrow> bool" where
  "single_flight s =
     (length (threads s) \<le> 1
      \<and> (threads s \<noteq> [] \<longrightarrow> user_input_state s = Disabled \<and> send_button_state s = Disabled)
      \<and> (user_input_state s = Disabled \<longrightarrow> user_input s = []))"


section \<open>Capture: clipboard\_handler.py\<close>


lemma restore_clipboard_unlocked:
  "restore_clipboard (Some c, w) = (g', w') \<Longrightarrow> \<not> clip_locked w' \<Longrightarrow> clipboard w' = c"
  by (auto simp: restore_clipboard_def pyperclip_copy_def split: if_splits)

lemma save_clipboard_unlocked:
  "\<not> clip_locked w \<Longrightarrow> save_clipboard w = (Some (clipboard w), Some (clipboard w), w)"
  by (simp add: save_clipboard_def pyperclip_paste_def)

text \<open>
  Claim C1 as stated is false. When the clipboard cannot be read as the capture starts,
  \<open>_save_clipboard\<close> keeps \<open>None\<close>, the copy is simulated all the same and
  \<open>_restore_clipboard\<close> restores nothing: the clipboard held \<open>old\<close> and holds the
  selection \<open>picked\<close> afterwards. When the clipboard cannot be written as the capture
  ends, the failed restoration is logged and the clipboard keeps \<open>picked\<close> as well.
\<close>

theorem capture_restores_clipboard_counterexample:
  "get_selected_text_via_copy (held_desktop (Some ''picked'') False) (None, busy_desk ''old'')
     = (Some ''picked'', None,
        \<lparr>clipboard = ''picked'', clip_locked = False, key_log = [''ctrl+c'']\<rparr>)
   \<and> get_selected_text_via_copy (held_desktop (Some ''picked'') True) (None, desk ''old'')
     = (None, None,
        \<lparr>clipboard = ''picked'', clip_locked = True, key_log = [''ctrl+c'']\<rparr>)"
  by code_simp

text \<open>
  Claim C1, amended. If the clipboard can be read when the capture starts and written
  when it ends (the two accesses by which the program saves and restores it), then
  whatever the keyboard and the foreign application do in between (an attempt succeeds,
  no attempt changes the clipboard, a simulated key raises), when
  \<open>get_selected_text_via_copy\<close> returns the clipboard holds its text from before the
  capture, the empty text included.
\<close>

theorem capture_restores_clipboard:
  assumes "\<not> clip_locked w"
    and "get_selected_text_via_copy P (g, w) = (t, g', w')"
    and "\<not> clip_locked w'"
  shows "clipboard w' = clipboard w"
proof -
  note saved = save_clipboard_unlocked [OF assms(1)]
  obtain r w2 where loop: "copy_loop (methods P) P (Some (clipboard w)) w = (r, w2)"
    by (cases "copy_loop (methods P) P (Some (clipboard w)) w")
  obtain g3 w3 where rest: "restore_clipboard (Some (clipboard w), w2) = (g3, w3)"
    by (cases "restore_clipboard (Some (clipboard w), w2)")
  from assms(2) saved loop rest have "w' = w3"
    by (simp add: get_selected_text_via_copy_def)
  with rest assms(3) show ?thesis
    by (auto dest: restore_clipboard_unlocked)
qed

text \<open>
  A run of C1 with a fault: the clipboard holds \<open>old\<close>, the first copy empties it, the
  second attempt raises on its first key, and \<open>old\<close> is back afterwards.
\<close>

theorem capture_restores_clipboard_witness:
  "get_selected_text_via_copy (desktop (Some []) ''ctrl'') (None, desk ''old'')
     = (None, None, (desk ''old'')\<lparr>key_log := [''ctrl+c'']\<rparr>)
   \<and> clipboard ((desk ''old'')\<lparr>key_log := [''ctrl+c'']\<rparr>) = clipboard (desk ''old'')"
proof -
  have unlocked: "\<not> clip_locked (desk ''old'')"
    by (simp add: desk_def)
  have ran: "get_selected_text_via_copy (desktop (Some []) ''ctrl'') (None, desk ''old'')
             = (None, None, (desk ''old'')\<lparr>key_log := [''ctrl+c'']\<rparr>)"
    by code_simp
  have "\<not> clip_locked ((desk ''old'')\<lparr>key_log := [''ctrl+c'']\<rparr>)"
    by (simp add: desk_def)
  from capture_restores_clipboard [OF unlocked ran this] ran show ?thesis
    by simp
qed




section \<open>The reply parser\<close>

text \<open>
  Claim C4 as stated is false. For the reply of the specification's example the parser
  does not return the display text \<open>Here:\<close>, newline, \<open>Done.\<close>: removing the fenced block
  leaves the newline before it and the newline after it, and two newlines in a row are
  not collapsed.
\<close>

theorem parser_example_counterexample:
  "extract_enhanced_content example_reply
     \<noteq> (''Here:'' @ [NL] @ ''Done.'', Some (JString ''X''))"
  by code_simp

text \<open>
  Claim C4, amended. For the reply of the example the parser returns the suggestion \<open>X\<close>
  and the display text \<open>Here:\<close>, an empty line, \<open>Done.\<close>: the fenced block is removed
  whole, the text is trimmed, and only runs of three or more newlines become two.
\<close>

theorem parser_example:
  "extract_enhanced_content example_reply
     = (''Here:'' @ [NL, NL] @ ''Done.'', Some (JString ''X''))"
  by code_simp


section \<open>The edit history\<close>

text \<open>
  Claim C5 fails on the path of an arriving suggestion. \<open>_update_gui_from_thread\<close>
  compares the suggestion with \<open>self.enhanced_content\<close>, which \<open>_send_message_event\<close>
  has set to \<open>None\<close> before the request was sent, and not with the top of the stack:
  the same suggestion arriving for two requests in a row is pushed twice.
\<close>

theorem same_suggestion_pushed_twice:
  "text_stack (fst (run (desktop None [])
      [Edit_input ''shorter'', Press_return, Result_ready ''Done.'' ''assistant'' (Some ''hi''),
       Edit_input ''again'', Press_return, Result_ready ''Done.'' ''assistant'' (Some ''hi'')]
      (init_window ''hello'' None, desk [])))
   = [''hello'', ''hi'', ''hi'']"
  by code_simp


section \<open>Single flight\<close>

lemma single_flight_init: "single_flight (init_window selected src)"
  by (simp add: single_flight_def init_window_def)

lemma py_strip_Nil: "py_strip [] = []"
  by (simp add: py_strip_def)

lemma single_flight_send: "single_flight s \<Longrightarrow> single_flight (send_message_event s)"
  by (cases "user_input_state s")
     (auto simp: single_flight_def send_message_event_def Let_def append_to_chat_def
      set_input_state_def py_strip_Nil)

lemma update_gui_fields:
  "threads (update_gui_from_thread m r e s) = threads s"
  "user_input (update_gui_from_thread m r e s) = user_input s"
  "user_input_state (update_gui_from_thread m r e s) = Normal
   \<or> user_input_state (update_gui_from_thread m r e s) = user_input_state s"
  by (auto simp: update_gui_from_thread_def Let_def append_to_chat_def set_input_state_def
      remove_last_message_def split: option.splits)

lemma apply_text_fields:
  assumes "apply_text_to_source_window P t n (s, w) = (ok, s', w')"
  shows "threads s' = threads s" and "user_input s' = user_input s"
    and "user_input_state s' = user_input_state s"
    and "send_button_state s' = send_button_state s"
  using assms
  by (auto simp: apply_text_to_source_window_def flash_paste_button_def
      split: if_splits prod.splits sum.splits option.splits)

lemma single_flight_cong:
  assumes "single_flight s" and "threads s' = threads s" and "user_input s' = user_input s"
    and "user_input_state s' = user_input_state s"
    and "send_button_state s' = send_button_state s"
  shows "single_flight s'"
  using assms by (simp add: single_flight_def)

lemma single_flight_update:
  assumes "single_flight s" and "threads s = t # ts"
  shows "single_flight (update_gui_from_thread m r e (s\<lparr>threads := ts\<rparr>))"
proof -
  let ?s' = "update_gui_from_thread m r e (s\<lparr>threads := ts\<rparr>)"
  from assms have "ts = []" and "user_input s = []"
    by (auto simp: single_flight_def)
  then have "threads ?s' = []" and "user_input ?s' = []"
    by (simp_all add: update_gui_fields)
  then show ?thesis by (simp add: single_flight_def)
qed

lemma single_flight_undo:
  assumes "single_flight s" shows "single_flight (fst (undo_action P (s, w)))"
proof (cases "length (text_stack s) > 1")
  case False
  with assms show ?thesis by (simp add: undo_action_def)
next
  case True
  define previous where "previous = last (butlast (text_stack s))"
  define s2 where "s2 = (let s1 = s\<lparr>text_stack := butlast (text_stack s),
        enhanced_content := Some previous, paste_preview := preview_of previous\<rparr>
      in if length (butlast (text_stack s)) = 1 then s1\<lparr>undo_button_state := Disabled\<rparr> else s1)"
  have s2: "single_flight s2"
    using assms by (auto simp: s2_def Let_def single_flight_def)
  obtain ok s' w' where r: "apply_text_to_source_window P previous ''Undone'' (s2, w) = (ok, s', w')"
    by (cases "apply_text_to_source_window P previous ''Undone'' (s2, w)")
  have "undo_action P (s, w) = (s', w')"
    using True r by (simp add: undo_action_def Let_def s2_def previous_def)
  moreover have "single_flight s'"
    using s2 apply_text_fields [OF r] by (rule single_flight_cong)
  ultimately show ?thesis by simp
qed

lemma single_flight_paste:
  assumes "single_flight s" shows "single_flight (fst (paste_enhanced_content P (s, w)))"
proof (cases "enhanced_content s")
  case None
  with assms show ?thesis
    by (simp add: paste_enhanced_content_def flash_paste_button_def single_flight_def)
next
  case (Some content)
  show ?thesis
  proof (cases "content = []")
    case True
    with Some assms show ?thesis
      by (simp add: paste_enhanced_content_def flash_paste_button_def single_flight_def)
  next
    case False
    obtain ok s' w' where r: "apply_text_to_source_window P content ''Pasted'' (s, w) = (ok, s', w')"
      by (cases "apply_text_to_source_window P content ''Pasted'' (s, w)")
    have s': "single_flight s'"
      using assms apply_text_fields [OF r] by (rule single_flight_cong)
    then show ?thesis
      using Some False r
      by (auto simp: paste_enhanced_content_def Let_def single_flight_def split: list.splits)
  qed
qed

lemma single_flight_step:
  assumes "single_flight (fst sw)" shows "single_flight (fst (step P ev sw))"
proof (cases sw)
  case (Pair s w)
  with assms have s: "single_flight s" by simp
  show ?thesis
  proof (cases ev)
    case (Edit_input t)
    with Pair s show ?thesis by (auto simp: single_flight_def)
  next
    case Press_return
    with Pair s show ?thesis by (simp add: single_flight_send)
  next
    case Click_send
    with Pair s show ?thesis by (simp add: single_flight_send)
  next
    case Click_paste
    with Pair s show ?thesis by (simp add: single_flight_paste)
  next
    case Click_undo
    with Pair s show ?thesis by (simp add: single_flight_undo)
  next
    case (Result_ready m r e)
    with Pair s show ?thesis by (simp add: single_flight_update split: list.splits)
  next
    case Flash_timer_fires
    with Pair s show ?thesis
      by (auto simp: revert_button_def single_flight_def split: option.splits)
  next
    case Clipboard_timer_fires
    with Pair s show ?thesis by (auto simp: single_flight_def split: list.splits)
  qed
qed

lemma single_flight_run:
  "single_flight (fst sw) \<Longrightarrow> single_flight (fst (run P evs sw))"
  by (induction evs arbitrary: sw) (simp_all add: single_flight_step)

text \<open>
  Claim C2. In every state a session reaches from the opening of the window, by any
  sequence of events, at most one thread is running. While one is running (a message
  was accepted and its result has not arrived), editing the entry, pressing Return and
  clicking Send leave the whole state as it is: no further thread is started and no
  turn is appended.
\<close>

theorem no_second_dispatch_while_awaiting:
  fixes P :: "'a platform"
  defines "now \<equiv> \<lambda>evs selected src w0. run P evs (init_window selected src, w0)"
  shows "length (threads (fst (now evs selected src w0))) \<le> 1
    \<and> (threads (fst (now evs selected src w0)) \<noteq> [] \<longrightarrow>
         step P (Edit_input t) (now evs selected src w0) = now evs selected src w0
         \<and> step P Press_return (now evs selected src w0) = now evs selected src w0
         \<and> step P Click_send (now evs selected src w0) = now evs selected src w0)"
proof -
  obtain s w where sw: "now evs selected src w0 = (s, w)"
    by (cases "now evs selected src w0")
  have "single_flight (fst (now evs selected src w0))"
    unfolding now_def by (rule single_flight_run) (simp add: single_flight_init)
  with sw have inv: "single_flight s" by simp
  then have "length (threads s) \<le> 1" by (simp add: single_flight_def)
  moreover have "step P (Edit_input t) (s, w) = (s, w)" "step P Press_return (s, w) = (s, w)"
    "step P Click_send (s, w) = (s, w)" if "threads s \<noteq> []"
    using inv that by (simp_all add: single_flight_def send_message_event_def py_strip_Nil)
  ultimately show ?thesis using sw by simp
qed

text \<open>
  A run of C2: after \<open>hi\<close> is sent the request is in flight, and typing, Return and Send
  change nothing.
\<close>

theorem no_second_dispatch_while_awaiting_witness:
  "threads (fst (run (desktop None []) [Edit_input ''hi'', Press_return]
                   (init_window ''hello'' None, desk [])))
     = [(Get_initial_response, ''hi'')]
   \<and> step (desktop None []) (Edit_input ''more'')
        (run (desktop None []) [Edit_input ''hi'', Press_return] (init_window ''hello'' None, desk []))
      = run (desktop None []) [Edit_input ''hi'', Press_return] (init_window ''hello'' None, desk [])
   \<and> step (desktop None []) Press_return
        (run (desktop None []) [Edit_input ''hi'', Press_return] (init_window ''hello'' None, desk []))
      = run (desktop None []) [Edit_input ''hi'', Press_return] (init_window ''hello'' None, desk [])
   \<and> step (desktop None []) Click_send
        (run (desktop None []) [Edit_input ''hi'', Press_return] (init_window ''hello'' None, desk []))
      = run (desktop None []) [Edit_input ''hi'', Press_return] (init_window ''hello'' None, desk [])"
proof -
  have running: "threads (fst (run (desktop None []) [Edit_input ''hi'', Press_return]
                   (init_window ''hello'' None, desk [])))
     = [(Get_initial_response, ''hi'')]"
    by code_simp
  from no_second_dispatch_while_awaiting
         [of "desktop None []" "[Edit_input ''hi'', Press_return]" "''hello''" None "desk []" "''more''"]
       running
  show ?thesis by simp
qed


section \<open>Pasting into the source window\<close>

text \<open>
  Claim C7 fails on the code. The source window no longer exists, so its activation
  raises inside the paste: \<open>_apply_text_to_source_window\<close> returns \<open>False\<close>, the
  clipboard keeps the text written for the paste instead of \<open>old\<close>, and no restoration
  is scheduled.
\<close>

theorem failed_paste_leaves_clipboard:
  "apply_text_to_source_window (desktop None []) ''new text'' ''Pasted''
      (init_window ''hello'' (Some 0), desk ''old'')
   = (False, init_window ''hello'' (Some 0), (desk ''old'')\<lparr>clipboard := ''new text''\<rparr>)"
  by code_simp

lemma apply_text_success:
  assumes "apply_text_to_source_window P text_content action_name (s, w) = (True, s', w')"
  shows "\<not> clip_locked w \<and> text_content \<noteq> []
    \<and> clipboard_timers s' = clipboard_timers s @ [(text_content, clipboard w)]"
  using assms
  by (auto simp: apply_text_to_source_window_def pyperclip_paste_def pyperclip_copy_def
      flash_paste_button_def split: if_splits prod.splits sum.splits option.splits)

text \<open>
  Claim C6. A paste that succeeds schedules one restoration, of the clipboard text from
  before the paste and guarded by the text the paste wrote. When the timer fires on a
  clipboard that holds anything else (the user has copied something in the meantime),
  the world is left as it is; when the clipboard still holds the pasted text and can be
  written, the text from before the paste is put back.
\<close>

theorem delayed_restore_keeps_newer_content:
  assumes "apply_text_to_source_window P text_content action_name (s, w) = (True, s', w')"
  shows "clipboard_timers s' = clipboard_timers s @ [(text_content, clipboard w)]
    \<and> (clipboard u \<noteq> text_content \<longrightarrow>
         restore_clipboard_timer (last (clipboard_timers s')) u = u)
    \<and> (clipboard u = text_content \<and> \<not> clip_locked u \<longrightarrow>
         clipboard (restore_clipboard_timer (last (clipboard_timers s')) u) = clipboard w)"
proof -
  from apply_text_success [OF assms]
  have timers: "clipboard_timers s' = clipboard_timers s @ [(text_content, clipboard w)]"
    by simp
  then have "last (clipboard_timers s') = (text_content, clipboard w)" by simp
  then show ?thesis using timers
    by (simp add: restore_clipboard_timer_def pyperclip_paste_def pyperclip_copy_def)
qed

text \<open>
  A run of C6: \<open>new\<close> is pasted over a clipboard holding \<open>old\<close>; the timer leaves the
  user's \<open>mine\<close> alone and, on the untouched clipboard, puts \<open>old\<close> back.
\<close>

theorem delayed_restore_keeps_newer_content_witness:
  "fst (apply_text_to_source_window (desktop None []) ''new'' ''Pasted''
          (init_window ''hello'' (Some 5), desk ''old''))
   \<and> clipboard_timers pasted_window = [(''new'', ''old'')]
   \<and> run (desktop None []) [Clipboard_timer_fires]
         (pasted_window, pasted_world\<lparr>clipboard := ''mine''\<rparr>)
       = (pasted_window\<lparr>clipboard_timers := []\<rparr>, pasted_world\<lparr>clipboard := ''mine''\<rparr>)
   \<and> clipboard (snd (run (desktop None []) [Clipboard_timer_fires] (pasted_window, pasted_world)))
       = ''old''"
proof -
  have ok: "fst (apply_text_to_source_window (desktop None []) ''new'' ''Pasted''
               (init_window ''hello'' (Some 5), desk ''old''))"
    by code_simp
  then have ran: "apply_text_to_source_window (desktop None []) ''new'' ''Pasted''
               (init_window ''hello'' (Some 5), desk ''old'') = (True, pasted_window, pasted_world)"
    by (simp add: pasted_window_def pasted_world_def prod_eq_iff)
  have w: "clipboard pasted_world = ''new'' \<and> \<not> clip_locked pasted_world"
    unfolding pasted_world_def by code_simp
  have mine: "clipboard (pasted_world\<lparr>clipboard := ''mine''\<rparr>) \<noteq> ''new''"
    by simp
  note th = delayed_restore_keeps_newer_content [OF ran]
  have timers: "clipboard_timers pasted_window = [(''new'', ''old'')]"
    using th [THEN conjunct1] by (simp add: init_window_def desk_def)
  have kept: "restore_clipboard_timer (''new'', ''old'') (pasted_world\<lparr>clipboard := ''mine''\<rparr>)
              = pasted_world\<lparr>clipboard := ''mine''\<rparr>"
    using th [THEN conjunct2, THEN conjunct1, THEN mp, OF mine] by (simp add: timers)
  have restored: "clipboard (restore_clipboard_timer (''new'', ''old'') pasted_world) = ''old''"
    using th [THEN conjunct2, THEN conjunct2, THEN mp, OF w] by (simp add: timers desk_def)
  show ?thesis
    by (simp add: ok timers kept restored)
qed






section \<open>Provider failures\<close>

lemma error_reply_classify:
  "error_reply e =
     (if classify (str_of_exn e) = ProviderOtherError
      then ''ERROR: '' @ str_of_exn e @ [NL, NL] @ ''Please try again in a moment.''
      else category_reply (classify (str_of_exn e)))"
  by (simp add: error_reply_def classify_def category_reply_def replace_char_def Let_def)

lemma category_reply_parsed:
  assumes "c \<noteq> ProviderOtherError"
  shows "extract_enhanced_content (category_reply c) = (category_reply c, None)"
proof -
  have "extract_enhanced_content (category_reply ProviderAuthError)
          = (category_reply ProviderAuthError, None)"
    by code_simp
  moreover have "extract_enhanced_content (category_reply ProviderConnectionError)
          = (category_reply ProviderConnectionError, None)"
    by code_simp
  moreover have "extract_enhanced_content (category_reply ProviderEmptyResponse)
          = (category_reply ProviderEmptyResponse, None)"
    by code_simp
  ultimately show ?thesis using assms by (cases c) simp_all
qed

lemma category_reply_parts_all:
  "list_all (\<lambda>c.
       (startswith (category_reply c) ''API_KEY_ERROR:''
        \<or> startswith (category_reply c) ''CONNECTION_ERROR:''
        \<or> startswith (category_reply c) ''NO_RESPONSE_ERROR:'')
     \<and> split_once (CHR '':'') (category_reply c)
          = [replace_char (CHR '' '') (CHR ''_'') (category_title c), CHR '' '' # category_message c]
     \<and> replace_char (CHR ''_'') (CHR '' '') (replace_char (CHR '' '') (CHR ''_'') (category_title c))
          = category_title c
     \<and> py_strip (CHR '' '' # category_message c) = category_message c)
     [ProviderAuthError, ProviderConnectionError, ProviderEmptyResponse]"
  by code_simp

lemma role_prefix_error:
  "role_prefix ''error_title'' = ''Error_title: ''" "role_prefix ''error'' = ''Error: ''"
  by code_simp+

lemma category_reply_parts:
  assumes "c \<noteq> ProviderOtherError"
  shows "startswith (category_reply c) ''API_KEY_ERROR:'' \<or> startswith (category_reply c) ''CONNECTION_ERROR:''
          \<or> startswith (category_reply c) ''NO_RESPONSE_ERROR:''"
    and "split_once (CHR '':'') (category_reply c)
          = [replace_char (CHR '' '') (CHR ''_'') (category_title c), CHR '' '' # category_message c]"
    and "replace_char (CHR ''_'') (CHR '' '') (replace_char (CHR '' '') (CHR ''_'') (category_title c))
          = category_title c"
    and "py_strip (CHR '' '' # category_message c) = category_message c"
  using assms category_reply_parts_all by (cases c; simp)+

lemma category_reply_shown:
  assumes "c \<noteq> ProviderOtherError"
  shows "chat_display (update_gui_from_thread (category_reply c) ''assistant'' None s)
         = chat_display (remove_last_message s)
           @ [(''error_title'', ''Error_title: '' @ warning_sign @ '' '' @ category_title c),
              (''error'', ''Error: '' @ category_message c)]"
  using category_reply_parts(1) [OF assms]
  by (simp add: update_gui_from_thread_def Let_def category_reply_parts(2-4) [OF assms]
      role_prefix_error append_to_chat_def set_input_state_def)


lemma invoke_chain_failure:
  assumes "chain (memory L) prompt = Inl e
     \<or> (\<exists>r. chain (memory L) prompt = Inr r \<and> py_strip r = []
              \<and> e = Exn ''No response received from LLM service'')"
  shows "invoke_chain chain prompt L = (error_reply e, L)"
  using assms by (auto simp: invoke_chain_def)

text \<open>
  Claim C8 as stated is false. A failure whose text matches none of the key terms comes
  back as \<open>ERROR:\<close> followed by the exception text; the parser returns it unchanged and
  the window shows it as an ordinary assistant turn, exception text included.
\<close>

theorem raw_exception_shown_counterexample:
  "extract_enhanced_content (fst (invoke_chain (failing_chain ''boom'') ''hi'' \<lparr>memory = []\<rparr>))
     = (fst (invoke_chain (failing_chain ''boom'') ''hi'' \<lparr>memory = []\<rparr>), None)
   \<and> chat_display (update_gui_from_thread
        (fst (invoke_chain (failing_chain ''boom'') ''hi'' \<lparr>memory = []\<rparr>))
        ''assistant'' None
        (send_message_event ((init_window ''hello'' None)\<lparr>user_input := ''hi''\<rparr>)))
     = [(''user'', ''You: hi''),
        (''assistant'', ''AI: ERROR: boom'' @ [NL, NL] @ ''Please try again in a moment.'')]"
  by code_simp

text \<open>
  Claim C8, amended. A provider failure (an exception of the chain, or a blank reply,
  which is raised as \<open>No response received from LLM service\<close>) is classified by the key
  terms in its lower-cased text. For the categories with key terms the reply is the
  category's tag and fixed message, the parser returns it unchanged with no suggestion,
  and the window replaces the last line of the display by a title turn naming the
  category and an error turn with the fixed message; neither holds the exception text.
  For a failure without key terms the reply is \<open>ERROR:\<close>, the exception text and a
  request to try again.
\<close>

theorem provider_failure_classified:
  assumes "chain (memory L) prompt = Inl e
     \<or> (\<exists>r. chain (memory L) prompt = Inr r \<and> py_strip r = []
              \<and> e = Exn ''No response received from LLM service'')"
  defines "reply \<equiv> fst (invoke_chain chain prompt L)"
    and "c \<equiv> classify (str_of_exn e)"
  shows "(c = ProviderOtherError \<longrightarrow>
            reply = ''ERROR: '' @ str_of_exn e @ [NL, NL] @ ''Please try again in a moment.'')
    \<and> (c \<noteq> ProviderOtherError \<longrightarrow>
            reply = category_reply c
          \<and> extract_enhanced_content reply = (reply, None)
          \<and> chat_display (update_gui_from_thread reply ''assistant'' None s)
              = chat_display (remove_last_message s)
                @ [(''error_title'', ''Error_title: '' @ warning_sign @ '' '' @ category_title c),
                   (''error'', ''Error: '' @ category_message c)])"
proof -
  have reply: "reply = error_reply e"
    unfolding reply_def
    using invoke_chain_failure [where chain = chain and L = L and prompt = prompt and e = e] assms(1)
    by simp
  show ?thesis
  proof (cases "c = ProviderOtherError")
    case True
    then show ?thesis
      using reply by (simp add: error_reply_classify c_def)
  next
    case False
    then have "reply = category_reply c"
      using reply by (simp add: error_reply_classify c_def)
    with False show ?thesis
      by (simp add: category_reply_parsed category_reply_shown)
  qed
qed

text \<open>A run of C8: \<open>401 Unauthorized\<close> is shown as an API key error.\<close>

theorem provider_failure_classified_witness:
  "fst (invoke_chain (failing_chain ''401 Unauthorized'') ''hi'' \<lparr>memory = []\<rparr>)
     = category_reply ProviderAuthError
   \<and> chat_display (update_gui_from_thread
        (fst (invoke_chain (failing_chain ''401 Unauthorized'') ''hi'' \<lparr>memory = []\<rparr>))
        ''assistant'' None
        (send_message_event ((init_window ''hello'' None)\<lparr>user_input := ''hi''\<rparr>)))
     = [(''user'', ''You: hi''),
        (''error_title'', ''Error_title: '' @ warning_sign @ '' API KEY ERROR''),
        (''error'', ''Error: Your API key appears to be invalid or has expired. Please check your API key in the settings.'')]"
proof -
  have fails: "failing_chain ''401 Unauthorized'' (memory \<lparr>memory = []\<rparr>) ''hi''
                 = Inl (Exn ''401 Unauthorized'')
     \<or> (\<exists>r. failing_chain ''401 Unauthorized'' (memory \<lparr>memory = []\<rparr>) ''hi'' = Inr r
              \<and> py_strip r = []
              \<and> Exn ''401 Unauthorized'' = Exn ''No response received from LLM service'')"
    by (simp add: failing_chain_def)
  have c: "classify ''401 Unauthorized'' = ProviderAuthError"
    by code_simp
  have d: "chat_display (remove_last_message
             (send_message_event ((init_window ''hello'' None)\<lparr>user_input := ''hi''\<rparr>)))
           = [(''user'', ''You: hi'')]"
    by code_simp
  have other: "classify (str_of_exn (Exn ''401 Unauthorized'')) \<noteq> ProviderOtherError"
    by (simp add: c)
  from provider_failure_classified
         [where chain = "failing_chain ''401 Unauthorized''" and L = "\<lparr>memory = []\<rparr>"
            and prompt = "''hi''" and e = "Exn ''401 Unauthorized''"
            and s = "send_message_event ((init_window ''hello'' None)\<lparr>user_input := ''hi''\<rparr>)",
          OF fails]
       other
  have "fst (invoke_chain (failing_chain ''401 Unauthorized'') ''hi'' \<lparr>memory = []\<rparr>)
          = category_reply (classify (str_of_exn (Exn ''401 Unauthorized'')))"
    and "chat_display (update_gui_from_thread
           (fst (invoke_chain (failing_chain ''401 Unauthorized'') ''hi'' \<lparr>memory = []\<rparr>))
           ''assistant'' None
           (send_message_event ((init_window ''hello'' None)\<lparr>user_input := ''hi''\<rparr>)))
         = chat_display (remove_last_message
             (send_message_event ((init_window ''hello'' None)\<lparr>user_input := ''hi''\<rparr>)))
           @ [(''error_title'', ''Error_title: '' @ warning_sign @ '' ''
                 @ category_title (classify (str_of_exn (Exn ''401 Unauthorized'')))),
              (''error'', ''Error: ''
                 @ category_message (classify (str_of_exn (Exn ''401 Unauthorized''))))]"
    by blast+
  then show ?thesis
    by (simp add: c d)
qed

end
